theory Spec2Isabelle
  imports
    Complex_Main
    "HOL-Library.Multiset"
    "HOL-Library.Option_ord"
    "HOL-Library.Char_ord"
    "HOL-Library.List_Lexorder"
    "HOL-Library.Product_Lexorder"
begin

section \<open>Hazard-mitigation scoring: data model\<close>

text \<open>
  The development embeds \<^verbatim>\<open>src/app/hazard_mitigation_draft2.py\<close>: the function
  \<^verbatim>\<open>initialize_dataset\<close>, which turns the table read from the CSV file into the frame
  \<^verbatim>\<open>latest\<close>, three indexes and three global statistics, and the function
  \<^verbatim>\<open>get_best_score_with_meta\<close>, which answers a query from them.

  Conventions of the embedding.
  \<^item> A data frame is the list of its rows, in frame order. A missing cell of a text column
    (pandas' NaN) is \<open>None\<close>, a present one is \<open>Some s\<close>.
  \<^item> A float is a real number; a float that may be NaN is a \<open>real option\<close> with \<open>None\<close>
    for NaN. Arithmetic is exact: the rounding error of binary floating point and the
    infinities are not modelled.
  \<^item> A timestamp is an integer (an instant); pandas' NaT is \<open>None\<close>.
  \<^item> Strings are byte strings; \<^verbatim>\<open>upper\<close>, \<^verbatim>\<open>lower\<close> and \<^verbatim>\<open>strip\<close> are modelled on ASCII.
\<close>

subsection \<open>Cells as read from the file\<close>

text \<open>
  What \<^verbatim>\<open>pd.to_datetime(..., errors="coerce")\<close> and
  \<^verbatim>\<open>pd.to_numeric(..., errors="coerce")\<close> meet in a cell: a value they convert, a text
  they cannot convert, or nothing. The conversion of text itself is the library's and
  is not modelled; a cell records its outcome.
\<close>

datatype date_cell = Timestamp int | BadDate string | NoDate

datatype num_cell = Numeric real | NonNumeric string | NoValue

record ('d, 'p) plan_row =
  stateAbbreviation :: "string option"
  countyName :: "string option"
  placeName :: "string option"
  population :: 'p
  planApprovalDate :: 'd

type_synonym csv_row = "(date_cell, num_cell) plan_row"
type_synonym dated_row = "(int option, num_cell) plan_row"
type_synonym clean_row = "(int option, real) plan_row"

record scored_row = "(int option, real) plan_row" +
  log_pop :: real
  score_log_linear :: real
  score_percentile :: real

record dataframe =
  columns :: "string list"
  rows :: "csv_row list"

datatype error = KeyError | ZeroDivisionError

subsection \<open>Strings\<close>

text \<open>The letters of ASCII change case; every other character stays.\<close>

definition upper_char :: "char \<Rightarrow> char" where
  "upper_char c =
     (case map_of (zip ''abcdefghijklmnopqrstuvwxyz'' ''ABCDEFGHIJKLMNOPQRSTUVWXYZ'') c of
        None \<Rightarrow> c | Some u \<Rightarrow> u)"

definition lower_char :: "char \<Rightarrow> char" where
  "lower_char c =
     (case map_of (zip ''ABCDEFGHIJKLMNOPQRSTUVWXYZ'' ''abcdefghijklmnopqrstuvwxyz'') c of
        None \<Rightarrow> c | Some l \<Rightarrow> l)"

definition upper :: "string \<Rightarrow> string" where
  "upper s = map upper_char s"

definition lower :: "string \<Rightarrow> string" where
  "lower s = map lower_char s"

definition is_space :: "char \<Rightarrow> bool" where
  "is_space c = (let n = (of_char c :: nat) in
     n = 32 \<or> (9 \<le> n \<and> n \<le> 13) \<or> (28 \<le> n \<and> n \<le> 31))"

definition strip :: "string \<Rightarrow> string" where
  "strip s = rev (dropWhile is_space (rev (dropWhile is_space s)))"

text \<open>\<^verbatim>\<open>_norm\<close>: a missing argument becomes the empty string, a string is stripped.\<close>

definition norm_str :: "string option \<Rightarrow> string" where
  "norm_str s = (case s of None \<Rightarrow> [] | Some t \<Rightarrow> strip t)"

text \<open>\<^verbatim>\<open>Series.str.upper()\<close> and \<^verbatim>\<open>Series.str.lower()\<close> leave a missing cell missing.\<close>

definition str_upper :: "string option \<Rightarrow> string option" where
  "str_upper = map_option upper"

definition str_lower :: "string option \<Rightarrow> string option" where
  "str_lower = map_option lower"

section \<open>Preprocessing\<close>

subsection \<open>Dates\<close>

definition to_datetime :: "date_cell \<Rightarrow> int option" where
  "to_datetime c = (case c of Timestamp t \<Rightarrow> Some t | BadDate _ \<Rightarrow> None | NoDate \<Rightarrow> None)"

definition convert_dates :: "csv_row \<Rightarrow> dated_row" where
  "convert_dates r =
     \<lparr> stateAbbreviation = stateAbbreviation r, countyName = countyName r,
       placeName = placeName r, population = population r,
       planApprovalDate = to_datetime (planApprovalDate r) \<rparr>"

subsection \<open>Sorting and deduplication\<close>

text \<open>
  \<^verbatim>\<open>df.sort_values(by="planApprovalDate", ascending=False)\<close> returns the rows in
  descending order of the date with the NaT rows last. Its default algorithm is not a
  stable one, so the order among rows of equal date is the library's choice. The
  embedding takes the sorting function as a parameter \<open>srt\<close> that meets this contract;
  \<open>sort_values\<close> below is the instance that keeps rows of equal date in frame order.
  In the order on \<open>int option\<close>, \<open>None\<close> is least, hence last when descending.
\<close>

definition sorts_by_date :: "(dated_row list \<Rightarrow> dated_row list) \<Rightarrow> bool" where
  "sorts_by_date srt \<longleftrightarrow>
     (\<forall>rs. mset (srt rs) = mset rs \<and>
        sorted_wrt (\<lambda>a b. planApprovalDate b \<le> planApprovalDate a) (srt rs))"

definition sort_values :: "dated_row list \<Rightarrow> dated_row list" where
  "sort_values rs = rev (sort_key planApprovalDate (rev rs))"

type_synonym place_key = "string option \<times> string option"

definition dedup_key :: "('d, 'p, 'z) plan_row_scheme \<Rightarrow> place_key" where
  "dedup_key r = (stateAbbreviation r, placeName r)"

text \<open>
  \<^verbatim>\<open>drop_duplicates(subset=["stateAbbreviation", "placeName"], keep="first")\<close>: a row
  stays when no earlier row has its pair; two missing cells count as equal.
\<close>

fun drop_duplicates_from :: "place_key list \<Rightarrow> ('d, 'p, 'z) plan_row_scheme list
    \<Rightarrow> ('d, 'p, 'z) plan_row_scheme list" where
  "drop_duplicates_from seen [] = []"
| "drop_duplicates_from seen (r # rs) =
     (if dedup_key r \<in> set seen then drop_duplicates_from seen rs
      else r # drop_duplicates_from (dedup_key r # seen) rs)"

definition drop_duplicates :: "('d, 'p, 'z) plan_row_scheme list
    \<Rightarrow> ('d, 'p, 'z) plan_row_scheme list" where
  "drop_duplicates rs = drop_duplicates_from [] rs"

definition deduplicate :: "(dated_row list \<Rightarrow> dated_row list) \<Rightarrow> dated_row list
    \<Rightarrow> dated_row list" where
  "deduplicate srt rs = drop_duplicates (srt rs)"

subsection \<open>Population\<close>

definition to_numeric :: "num_cell \<Rightarrow> real option" where
  "to_numeric c = (case c of Numeric x \<Rightarrow> Some x | NonNumeric _ \<Rightarrow> None | NoValue \<Rightarrow> None)"

definition fillna :: "real \<Rightarrow> real option \<Rightarrow> real" where
  "fillna d x = (case x of None \<Rightarrow> d | Some v \<Rightarrow> v)"

text \<open>
  \<^verbatim>\<open>to_numeric(...).fillna(0)\<close>, then
  \<^verbatim>\<open>latest.loc[latest["population"] <= 0, "population"] = 1000\<close>.
\<close>

definition clean_population :: "num_cell \<Rightarrow> real" where
  "clean_population c = (let p = fillna 0 (to_numeric c) in if p \<le> 0 then 1000 else p)"

definition clean_population_row :: "dated_row \<Rightarrow> clean_row" where
  "clean_population_row r =
     \<lparr> stateAbbreviation = stateAbbreviation r, countyName = countyName r,
       placeName = placeName r, population = clean_population (population r),
       planApprovalDate = planApprovalDate r \<rparr>"

section \<open>Scores\<close>

definition log1p :: "real \<Rightarrow> real" where
  "log1p x = ln (1 + x)"

text \<open>\<^verbatim>\<open>Series.min()\<close>, \<^verbatim>\<open>max()\<close> and \<^verbatim>\<open>median()\<close> of an empty column are NaN.\<close>

definition series_min :: "real list \<Rightarrow> real option" where
  "series_min xs = (case xs of [] \<Rightarrow> None | x # ys \<Rightarrow> Some (fold min ys x))"

definition series_max :: "real list \<Rightarrow> real option" where
  "series_max xs = (case xs of [] \<Rightarrow> None | x # ys \<Rightarrow> Some (fold max ys x))"

definition series_median :: "real list \<Rightarrow> real option" where
  "series_median xs = (case xs of [] \<Rightarrow> None
     | _ # _ \<Rightarrow> (let s = sort xs; n = length s in
         Some (if odd n then s ! (n div 2) else (s ! (n div 2 - 1) + s ! (n div 2)) / 2)))"

text \<open>Rounding to the nearest integer, a tie going to the even neighbour.\<close>

definition rint :: "real \<Rightarrow> int" where
  "rint x = (let f = \<lfloor>x\<rfloor>; d = x - of_int f in
     if d < 1 / 2 then f else if 1 / 2 < d then f + 1 else if even f then f else f + 1)"

definition round2 :: "real \<Rightarrow> real" where
  "round2 x = of_int (rint (x * 100)) / 100"

text \<open>Lines 44 to 48: the score of one row, given the column's minimum and maximum.\<close>

definition linear_score :: "real \<Rightarrow> real \<Rightarrow> real \<Rightarrow> real" where
  "linear_score mn mx lp =
     round2 (if mx = mn then 50 else ((lp - mn) / (mx - mn)) * 99 + 1)"

text \<open>\<^verbatim>\<open>rank(method="average", pct=True)\<close>: the mean of the ranks of the ties, over the count.\<close>

definition rank_pct :: "real list \<Rightarrow> real \<Rightarrow> real" where
  "rank_pct xs x =
     (real (length (filter (\<lambda>y. y < x) xs)) + (real (length (filter (\<lambda>y. y = x) xs)) + 1) / 2)
       / real (length xs)"

definition score_row :: "real \<Rightarrow> real \<Rightarrow> real list \<Rightarrow> clean_row \<Rightarrow> scored_row" where
  "score_row mn mx lps r =
     \<lparr> stateAbbreviation = stateAbbreviation r, countyName = countyName r,
       placeName = placeName r, population = population r,
       planApprovalDate = planApprovalDate r,
       log_pop = log1p (population r),
       score_log_linear = linear_score mn mx (log1p (population r)),
       score_percentile = round2 (rank_pct lps (log1p (population r)) * 100) \<rparr>"

text \<open>
  The statistics are NaN only when the frame has no row, and then the score columns
  have no entry.
\<close>

definition score_rows :: "real option \<Rightarrow> real option \<Rightarrow> clean_row list \<Rightarrow> scored_row list" where
  "score_rows lmin lmax rs =
     (case (lmin, lmax) of
        (Some mn, Some mx) \<Rightarrow> map (score_row mn mx (map (\<lambda>r. log1p (population r)) rs)) rs
      | _ \<Rightarrow> [])"

section \<open>Aggregation\<close>

text \<open>
  \<^verbatim>\<open>np.average(x, weights=w)\<close> raises \<^verbatim>\<open>ZeroDivisionError\<close> when the weights sum to zero.
\<close>

definition np_average :: "real list \<Rightarrow> real list \<Rightarrow> error + real" where
  "np_average xs ws = (let scl = sum_list ws in
     if scl = 0 then Inl ZeroDivisionError
     else Inr (sum_list (map2 (*) xs ws) / scl))"

text \<open>
  \<^verbatim>\<open>groupby\<close> drops the rows with a missing key cell and yields the groups in
  ascending order of their keys.
\<close>

definition group_keys :: "('r \<Rightarrow> 'k option) \<Rightarrow> 'r list \<Rightarrow> ('k::linorder) list" where
  "group_keys key rs = sort (remdups (List.map_filter key rs))"

definition group_rows :: "('r \<Rightarrow> 'k option) \<Rightarrow> 'r list \<Rightarrow> 'k \<Rightarrow> 'r list" where
  "group_rows key rs k = filter (\<lambda>r. key r = Some k) rs"

fun collect :: "(error + 'a) list \<Rightarrow> error + 'a list" where
  "collect [] = Inr []"
| "collect (x # xs) =
     (case x of Inl e \<Rightarrow> Inl e
      | Inr v \<Rightarrow> (case collect xs of Inl e \<Rightarrow> Inl e | Inr vs \<Rightarrow> Inr (v # vs)))"

record county_row =
  county_stateAbbreviation :: string
  county_countyName :: string
  county_pop :: real
  county_score_weighted :: real

record state_row =
  state_stateAbbreviation :: string
  state_pop :: real
  state_score_weighted :: real

definition county_key :: "scored_row \<Rightarrow> (string \<times> string) option" where
  "county_key r = (case (stateAbbreviation r, countyName r) of
     (Some s, Some c) \<Rightarrow> Some (s, c) | _ \<Rightarrow> None)"

definition state_key :: "scored_row \<Rightarrow> string option" where
  "state_key r = stateAbbreviation r"

definition county_agg :: "scored_row list \<Rightarrow> string \<times> string \<Rightarrow> error + county_row" where
  "county_agg latest k = (let g = group_rows county_key latest k in
     case np_average (map score_log_linear g) (map population g) of
       Inl e \<Rightarrow> Inl e
     | Inr w \<Rightarrow> Inr \<lparr> county_stateAbbreviation = fst k, county_countyName = snd k,
                     county_pop = sum_list (map population g),
                     county_score_weighted = w \<rparr>)"

definition county_group :: "scored_row list \<Rightarrow> error + county_row list" where
  "county_group latest = collect (map (county_agg latest) (group_keys county_key latest))"

definition state_agg :: "scored_row list \<Rightarrow> string \<Rightarrow> error + state_row" where
  "state_agg latest k = (let g = group_rows state_key latest k in
     case np_average (map score_log_linear g) (map population g) of
       Inl e \<Rightarrow> Inl e
     | Inr w \<Rightarrow> Inr \<lparr> state_stateAbbreviation = k, state_pop = sum_list (map population g),
                     state_score_weighted = w \<rparr>)"

definition state_group :: "scored_row list \<Rightarrow> error + state_row list" where
  "state_group latest = collect (map (state_agg latest) (group_keys state_key latest))"

section \<open>Indexes\<close>

text \<open>
  An index is the list of (key, row) pairs in frame order; a key may occur more than
  once. \<^verbatim>\<open>key in idx.index\<close> is \<open>index_contains\<close>, \<^verbatim>\<open>idx.loc[key]\<close> is \<open>index_loc\<close>: the
  rows under the key, in frame order.
\<close>

definition index_contains :: "('k \<times> 'r) list \<Rightarrow> 'k \<Rightarrow> bool" where
  "index_contains idx k = (k \<in> set (map fst idx))"

definition index_loc :: "('k \<times> 'r) list \<Rightarrow> 'k \<Rightarrow> 'r list" where
  "index_loc idx k = map snd (filter (\<lambda>e. fst e = k) idx)"

text \<open>\<^verbatim>\<open>sort_index()\<close> is a stable sort by key, the missing keys last.\<close>

definition key_rank :: "string option \<Rightarrow> nat \<times> string" where
  "key_rank k = (case k of None \<Rightarrow> (1, []) | Some s \<Rightarrow> (0, s))"

definition sort_index :: "(place_key \<times> 'r) list \<Rightarrow> (place_key \<times> 'r) list" where
  "sort_index idx = sort_key (\<lambda>e. (key_rank (fst (fst e)), key_rank (snd (fst e)))) idx"

definition build_town_index :: "scored_row list \<Rightarrow> (place_key \<times> scored_row) list" where
  "build_town_index latest =
     sort_index (map (\<lambda>r. ((str_upper (stateAbbreviation r), str_lower (placeName r)), r)) latest)"

definition build_county_index :: "county_row list \<Rightarrow> ((string \<times> string) \<times> county_row) list" where
  "build_county_index cg =
     map (\<lambda>c. ((upper (county_stateAbbreviation c), lower (county_countyName c)), c)) cg"

definition build_state_index :: "state_row list \<Rightarrow> (string \<times> state_row) list" where
  "build_state_index sg = map (\<lambda>s. (upper (state_stateAbbreviation s), s)) sg"

section \<open>Initialisation\<close>

record snapshot =
  latest :: "scored_row list"
  town_index :: "(place_key \<times> scored_row) list"
  county_index :: "((string \<times> string) \<times> county_row) list"
  state_index :: "(string \<times> state_row) list"
  log_min :: "real option"
  log_max :: "real option"
  log_median :: "real option"

definition required_columns :: "string list" where
  "required_columns =
     [''planApprovalDate'', ''stateAbbreviation'', ''placeName'', ''population'', ''countyName'']"

text \<open>
  \<^verbatim>\<open>initialize_dataset\<close>, after \<^verbatim>\<open>read_csv\<close>. A column the function names and the table
  lacks is a \<^verbatim>\<open>KeyError\<close>; the conversion of the other date columns has no effect on
  the result and is left out.
\<close>

definition initialize_dataset ::
    "(dated_row list \<Rightarrow> dated_row list) \<Rightarrow> dataframe \<Rightarrow> error + snapshot" where
  "initialize_dataset srt df =
     (if \<not> set required_columns \<subseteq> set (columns df) then Inl KeyError
      else
        let dated = map convert_dates (rows df);
            df_sorted = srt dated;
            deduped = drop_duplicates df_sorted;
            cleaned = map clean_population_row deduped;
            lps = map (\<lambda>r. log1p (population r)) cleaned;
            lmin = series_min lps;
            lmax = series_max lps;
            lmedian = series_median lps;
            scored = score_rows lmin lmax cleaned
        in case county_group scored of
             Inl e \<Rightarrow> Inl e
           | Inr cg \<Rightarrow>
               (case state_group scored of
                  Inl e \<Rightarrow> Inl e
                | Inr sg \<Rightarrow>
                    Inr \<lparr> latest = scored,
                          town_index = build_town_index scored,
                          county_index = build_county_index cg,
                          state_index = build_state_index sg,
                          log_min = lmin, log_max = lmax, log_median = lmedian \<rparr>))"

section \<open>The resolver\<close>

datatype details =
    Town_details "string option" int real
  | County_details string real
  | State_details string real
  | Fallback_details string

type_synonym resolution = "real option \<times> string \<times> details"

text \<open>\<^verbatim>\<open>int(x)\<close> of a float truncates towards zero.\<close>

definition py_int :: "real \<Rightarrow> int" where
  "py_int x = (if 0 \<le> x then \<lfloor>x\<rfloor> else \<lceil>x\<rceil>)"

text \<open>
  Each level returns \<open>Some\<close> result when the function returns there, and \<open>None\<close> when
  control passes to the next level: the key is absent, or an exception was raised and
  swallowed by the \<^verbatim>\<open>except\<close> clause (a \<^verbatim>\<open>loc\<close> that finds no row).
\<close>

definition town_level :: "(place_key \<times> scored_row) list \<Rightarrow> string \<Rightarrow> string
    \<Rightarrow> resolution option" where
  "town_level ti state_abbrev place_name_norm =
     (if index_contains ti (Some state_abbrev, Some place_name_norm) then
        (case index_loc ti (Some state_abbrev, Some place_name_norm) of
           [] \<Rightarrow> None
         | row # _ \<Rightarrow>
             Some (Some (score_log_linear row), ''town'',
                   Town_details (placeName row) (py_int (population row))
                     (score_log_linear row)))
      else None)"

definition county_level :: "((string \<times> string) \<times> county_row) list \<Rightarrow> string \<Rightarrow> string
    \<Rightarrow> resolution option" where
  "county_level ci state_abbrev county_name =
     (if index_contains ci (state_abbrev, county_name) then
        (case index_loc ci (state_abbrev, county_name) of
           [] \<Rightarrow> None
         | crow # _ \<Rightarrow>
             Some (Some (county_score_weighted crow), ''county'',
                   County_details (norm_str (Some county_name)) (county_score_weighted crow)))
      else None)"

definition state_level :: "(string \<times> state_row) list \<Rightarrow> string \<Rightarrow> resolution option" where
  "state_level si state_abbrev =
     (if index_contains si state_abbrev then
        (case index_loc si state_abbrev of
           [] \<Rightarrow> None
         | srow # _ \<Rightarrow>
             Some (Some (state_score_weighted srow), ''state'',
                   State_details state_abbrev (state_score_weighted srow)))
      else None)"

text \<open>\<^verbatim>\<open>==\<close> on floats: a comparison with NaN is false.\<close>

definition float_eq :: "real option \<Rightarrow> real option \<Rightarrow> bool" where
  "float_eq a b = (case (a, b) of (Some x, Some y) \<Rightarrow> x = y | _ \<Rightarrow> False)"

definition fallback_score :: "real option \<Rightarrow> real option \<Rightarrow> real option \<Rightarrow> real option" where
  "fallback_score lmin lmax lmedian =
     (if float_eq lmax lmin then Some 50
      else (case (lmedian, lmin, lmax) of
              (Some md, Some mn, Some mx) \<Rightarrow> Some (((md - mn) / (mx - mn)) * 99 + 1)
            | _ \<Rightarrow> None))"

definition global_fallback :: "real option \<Rightarrow> real option \<Rightarrow> real option \<Rightarrow> resolution" where
  "global_fallback lmin lmax lmedian =
     (map_option round2 (fallback_score lmin lmax lmedian), ''global_fallback'',
      Fallback_details ''no match found for town/county/state'')"

definition get_best_score_with_meta ::
    "string option \<Rightarrow> string option \<Rightarrow> string option
     \<Rightarrow> (place_key \<times> scored_row) list \<Rightarrow> ((string \<times> string) \<times> county_row) list
     \<Rightarrow> (string \<times> state_row) list
     \<Rightarrow> real option \<Rightarrow> real option \<Rightarrow> real option \<Rightarrow> resolution" where
  "get_best_score_with_meta state_abbrev county_name place_name ti ci si lmin lmax lmedian =
     (let st = upper (norm_str state_abbrev);
          cn = lower (norm_str county_name);
          pn = lower (norm_str place_name)
      in case town_level ti st pn of
           Some r \<Rightarrow> r
         | None \<Rightarrow>
             (case county_level ci st cn of
                Some r \<Rightarrow> r
              | None \<Rightarrow>
                  (case state_level si st of
                     Some r \<Rightarrow> r
                   | None \<Rightarrow> global_fallback lmin lmax lmedian)))"

text \<open>A query against the snapshot that the initialisation built.\<close>

definition resolve :: "snapshot \<Rightarrow> string option \<Rightarrow> string option \<Rightarrow> string option
    \<Rightarrow> resolution" where
  "resolve snap state_abbrev county_name place_name =
     get_best_score_with_meta state_abbrev county_name place_name
       (town_index snap) (county_index snap) (state_index snap)
       (log_min snap) (log_max snap) (log_median snap)"

section \<open>Notions used in the statements\<close>

text \<open>The frame after line 33, and its column of logarithms (line 36).\<close>

definition cleaned_frame :: "(dated_row list \<Rightarrow> dated_row list) \<Rightarrow> dataframe
    \<Rightarrow> clean_row list" where
  "cleaned_frame srt df =
     map clean_population_row (deduplicate srt (map convert_dates (rows df)))"

definition log_column :: "clean_row list \<Rightarrow> real list" where
  "log_column rs = map (\<lambda>r. log1p (population r)) rs"

text \<open>
  The population-weighted mean of a group as the specification words it:
  the sum of score times population over the sum of the populations.
\<close>

definition weighted_mean :: "scored_row list \<Rightarrow> real" where
  "weighted_mean g =
     sum_list (map (\<lambda>r. score_log_linear r * population r) g) / sum_list (map population g)"

section \<open>Example data\<close>

text \<open>
  Small inputs on which the definitions are evaluated. The rows \<open>row_arvin\<close> and
  \<open>row_taft\<close> carry the populations and scores of the specification's example of a
  weighted mean (1000 with 40, 3000 with 80); \<open>row_arvin_upper\<close> collides with
  \<open>row_arvin\<close> once the case is normalised. \<open>small_town_snapshot\<close> and
  \<open>empty_snapshot\<close> are what the initialisation returns on \<open>small_town_df\<close> and
  \<open>empty_df\<close>.
\<close>

definition dated_example :: "dated_row list" where
  "dated_example =
     [\<lparr> stateAbbreviation = Some ''CA'', countyName = Some ''Sangamon'',
         placeName = Some ''Springfield'', population = Numeric 500, planApprovalDate = None \<rparr>,
      \<lparr> stateAbbreviation = Some ''CA'', countyName = Some ''Sangamon'',
         placeName = Some ''Springfield'', population = NoValue, planApprovalDate = Some 7 \<rparr>,
      \<lparr> stateAbbreviation = Some ''TX'', countyName = Some ''Travis'',
         placeName = Some ''Austin'', population = Numeric 3000, planApprovalDate = Some 2 \<rparr>]"

definition row_arvin :: scored_row where
  "row_arvin =
     \<lparr> stateAbbreviation = Some ''CA'', countyName = Some ''Kern'',
       placeName = Some ''Arvin'', population = 1000, planApprovalDate = Some 9,
       log_pop = log1p 1000, score_log_linear = 40, score_percentile = 33.33 \<rparr>"

definition row_taft :: scored_row where
  "row_taft =
     \<lparr> stateAbbreviation = Some ''CA'', countyName = Some ''Kern'',
       placeName = Some ''Taft'', population = 3000, planApprovalDate = Some 4,
       log_pop = log1p 3000, score_log_linear = 80, score_percentile = 100 \<rparr>"





definition small_town_df :: dataframe where
  "small_town_df =
     \<lparr> columns = required_columns,
       rows = [\<lparr> stateAbbreviation = Some ''VT'', countyName = Some ''Essex'',
                 placeName = Some ''Victory'', population = Numeric 500,
                 planApprovalDate = BadDate ''pending'' \<rparr>] \<rparr>"

definition row_victory :: scored_row where
  "row_victory =
     \<lparr> stateAbbreviation = Some ''VT'', countyName = Some ''Essex'',
       placeName = Some ''Victory'', population = 500, planApprovalDate = None,
       log_pop = ln 501, score_log_linear = 50, score_percentile = 100 \<rparr>"

definition small_town_snapshot :: snapshot where
  "small_town_snapshot =
     \<lparr> latest = [row_victory],
       town_index = [((Some ''VT'', Some ''victory''), row_victory)],
       county_index = [((''VT'', ''essex''),
         \<lparr> county_stateAbbreviation = ''VT'', county_countyName = ''Essex'',
           county_pop = 500, county_score_weighted = 50 \<rparr>)],
       state_index = [(''VT'',
         \<lparr> state_stateAbbreviation = ''VT'', state_pop = 500, state_score_weighted = 50 \<rparr>)],
       log_min = Some (ln 501), log_max = Some (ln 501), log_median = Some (ln 501) \<rparr>"

definition empty_df :: dataframe where
  "empty_df = \<lparr> columns = required_columns, rows = [] \<rparr>"

definition empty_snapshot :: snapshot where
  "empty_snapshot =
     \<lparr> latest = [], town_index = [], county_index = [], state_index = [],
       log_min = None, log_max = None, log_median = None \<rparr>"

definition twin_df :: dataframe where
  "twin_df =
     \<lparr> columns = required_columns,
       rows = [\<lparr> stateAbbreviation = Some ''VT'', countyName = Some ''Essex'',
                 placeName = Some ''Victory'', population = NoValue,
                 planApprovalDate = Timestamp 3 \<rparr>,
               \<lparr> stateAbbreviation = Some ''VT'', countyName = Some ''Essex'',
                 placeName = Some ''Granby'', population = Numeric (- 5),
                 planApprovalDate = NoDate \<rparr>] \<rparr>"

section \<open>Properties of the deduplication\<close>

lemma sort_values_sorts: "sorts_by_date sort_values"
proof -
  have "sorted_wrt (\<lambda>x y. planApprovalDate x \<le> planApprovalDate y) (sort_key planApprovalDate xs)"
    for xs :: "dated_row list"
    using sorted_sort_key[of planApprovalDate xs] by (simp only: sorted_map)
  then show ?thesis
    unfolding sorts_by_date_def sort_values_def by (simp add: sorted_wrt_rev)
qed


lemma ddf_subset: "set (drop_duplicates_from seen rs) \<subseteq> set rs"
  by (induction rs arbitrary: seen) auto

lemma ddf_keys:
  "dedup_key ` set (drop_duplicates_from seen rs) = dedup_key ` set rs - set seen"
  by (induction rs arbitrary: seen) auto

lemma ddf_distinct: "distinct (map dedup_key (drop_duplicates_from seen rs))"
  by (induction rs arbitrary: seen) (auto simp: ddf_keys)


text \<open>A row that is kept is the first row of the frame with its key.\<close>

lemma ddf_first:
  "r \<in> set (drop_duplicates_from seen rs) \<Longrightarrow>
   \<exists>pre post. rs = pre @ r # post \<and> dedup_key r \<notin> dedup_key ` set pre"
proof (induction rs arbitrary: seen)
  case Nil
  then show ?case by simp
next
  case (Cons a rs)
  show ?case
  proof (cases "r = a")
    case True
    then have "a # rs = [] @ r # rs \<and> dedup_key r \<notin> dedup_key ` set []" by simp
    then show ?thesis by blast
  next
    case False
    define seen' where "seen' = (if dedup_key a \<in> set seen then seen else dedup_key a # seen)"
    have mem: "r \<in> set (drop_duplicates_from seen' rs)"
      using Cons.prems False by (auto simp: seen'_def split: if_splits)
    then obtain pre post where pp: "rs = pre @ r # post" "dedup_key r \<notin> dedup_key ` set pre"
      using Cons.IH by blast
    have "dedup_key r \<notin> set seen'"
      using mem ddf_keys[of seen' rs] by blast
    moreover have "dedup_key a \<in> set seen'"
      by (simp add: seen'_def)
    ultimately have "dedup_key r \<noteq> dedup_key a" by auto
    with pp have "a # rs = (a # pre) @ r # post \<and> dedup_key r \<notin> dedup_key ` set (a # pre)"
      by auto
    then show ?thesis by blast
  qed
qed


lemma ddf_max:
  fixes rs :: "('d::preorder, 'p, 'z) plan_row_scheme list"
  assumes "sorted_wrt (\<lambda>a b. planApprovalDate b \<le> planApprovalDate a) rs"
    and "r \<in> set (drop_duplicates_from seen rs)"
    and "r' \<in> set rs" and "dedup_key r' = dedup_key r"
  shows "planApprovalDate r' \<le> planApprovalDate r"
proof -
  obtain pre post where pp: "rs = pre @ r # post" "dedup_key r \<notin> dedup_key ` set pre"
    using ddf_first[OF assms(2)] by blast
  have "r' \<notin> set pre"
  proof
    assume "r' \<in> set pre"
    then have "dedup_key r' \<in> dedup_key ` set pre" by (rule imageI)
    with assms(4) pp(2) show False by simp
  qed
  with assms(3) pp(1) have "r' = r \<or> r' \<in> set post" by auto
  then show ?thesis using assms(1) pp(1) by (auto simp: sorted_wrt_append)
qed

lemma sorts_by_date_set: "sorts_by_date srt \<Longrightarrow> set (srt rs) = set rs"
  unfolding sorts_by_date_def by (metis set_mset_mset)

lemma deduplicate_distinct: "distinct (map dedup_key (deduplicate srt rs))"
  by (simp add: deduplicate_def drop_duplicates_def ddf_distinct)


text \<open>
  C3. After deduplication no two rows share a (stateAbbreviation, placeName) pair,
  every pair of the input is still there, and the row kept for a pair is a row of the
  input whose approval date is greatest in its group, in the order where the null date
  is below every date: when some row of the group is dated, so is the row kept.
\<close>

theorem deduplicate_keeps_latest:
  assumes "sorts_by_date srt"
  shows "distinct (map dedup_key (deduplicate srt rs)) \<and>
         dedup_key ` set (deduplicate srt rs) = dedup_key ` set rs \<and>
         (\<forall>r \<in> set (deduplicate srt rs). r \<in> set rs \<and>
            (\<forall>r' \<in> set rs. dedup_key r' = dedup_key r \<longrightarrow>
               planApprovalDate r' \<le> planApprovalDate r \<and>
               (planApprovalDate r' \<noteq> None \<longrightarrow> planApprovalDate r \<noteq> None)))"
proof (intro conjI ballI impI)
  show "distinct (map dedup_key (deduplicate srt rs))"
    by (rule deduplicate_distinct)
  show "dedup_key ` set (deduplicate srt rs) = dedup_key ` set rs"
    using sorts_by_date_set[OF assms, of rs]
    by (simp add: deduplicate_def drop_duplicates_def ddf_keys)
next
  fix r assume r: "r \<in> set (deduplicate srt rs)"
  then show "r \<in> set rs"
    using ddf_subset[of "[]" "srt rs"] sorts_by_date_set[OF assms, of rs]
    by (auto simp: deduplicate_def drop_duplicates_def)
  fix r' assume r': "r' \<in> set rs" "dedup_key r' = dedup_key r"
  have srt: "sorted_wrt (\<lambda>a b. planApprovalDate b \<le> planApprovalDate a) (srt rs)"
    using assms by (simp add: sorts_by_date_def)
  have "r' \<in> set (srt rs)"
    using r'(1) sorts_by_date_set[OF assms, of rs] by simp
  then show le: "planApprovalDate r' \<le> planApprovalDate r"
    using ddf_max[OF srt, of r "[]" r'] r r'(2)
    by (simp add: deduplicate_def drop_duplicates_def)
  assume "planApprovalDate r' \<noteq> None"
  with le show "planApprovalDate r \<noteq> None"
    by (cases "planApprovalDate r") auto
qed

theorem deduplicate_keeps_latest_witness:
  "sorts_by_date sort_values \<and>
   deduplicate sort_values dated_example = [dated_example ! 1, dated_example ! 2] \<and>
   distinct (map dedup_key (deduplicate sort_values dated_example)) \<and>
   dedup_key ` set (deduplicate sort_values dated_example) = dedup_key ` set dated_example \<and>
   dedup_key (dated_example ! 0) = dedup_key (dated_example ! 1) \<and>
   planApprovalDate (dated_example ! 0) \<le> planApprovalDate (dated_example ! 1)"
proof -
  have ev: "deduplicate sort_values dated_example = [dated_example ! 1, dated_example ! 2]"
    by (simp add: deduplicate_def sort_values_def dated_example_def drop_duplicates_def
        dedup_key_def)
  have k: "dedup_key (dated_example ! 0) = dedup_key (dated_example ! 1)"
    by (simp add: dated_example_def dedup_key_def)
  have m: "dated_example ! 0 \<in> set dated_example"
    by (simp add: dated_example_def)
  have "dated_example ! 1 \<in> set (deduplicate sort_values dated_example)"
    by (simp add: ev)
  then have "planApprovalDate (dated_example ! 0) \<le> planApprovalDate (dated_example ! 1)"
    using deduplicate_keeps_latest[OF sort_values_sorts, of dated_example] k m by blast
  then show ?thesis
    using deduplicate_keeps_latest[OF sort_values_sorts, of dated_example] ev k
      sort_values_sorts
    by simp
qed



section \<open>Properties of the resolver\<close>

















section \<open>Properties of the preprocessing\<close>

lemma round2_fixed: "round2 50 = 50" "round2 100 = 100" "round2 1 = 1"
  by (simp_all add: round2_def rint_def)

lemma clean_population_pos: "0 < clean_population c"
  by (simp add: clean_population_def Let_def)

lemma cleaned_frame_pos: "r \<in> set (cleaned_frame srt df) \<Longrightarrow> 0 < population r"
  by (auto simp: cleaned_frame_def clean_population_row_def clean_population_pos)

lemma score_row_fields:
  "population (score_row mn mx lps r) = population r"
  "stateAbbreviation (score_row mn mx lps r) = stateAbbreviation r"
  "countyName (score_row mn mx lps r) = countyName r"
  "placeName (score_row mn mx lps r) = placeName r"
  "score_log_linear (score_row mn mx lps r) = linear_score mn mx (log1p (population r))"
  by (simp_all add: score_row_def)

lemma score_rows_population:
  "r \<in> set (score_rows lmin lmax rs) \<Longrightarrow> \<exists>r0 \<in> set rs. population r = population r0"
  by (auto simp: score_rows_def score_row_fields split: option.splits)

subsection \<open>Groups\<close>

lemma set_group_keys: "set (group_keys key rs) = {k. \<exists>r \<in> set rs. key r = Some k}"
proof -
  have "set (List.map_filter key rs) = {k. \<exists>r \<in> set rs. key r = Some k}"
    by (induction rs) (auto split: option.splits)
  then show ?thesis by (simp add: group_keys_def)
qed

lemma distinct_group_keys: "distinct (group_keys key rs)"
  by (simp add: group_keys_def)

lemma group_rows_nonempty: "k \<in> set (group_keys key rs) \<longleftrightarrow> group_rows key rs k \<noteq> []"
  by (auto simp: set_group_keys group_rows_def filter_empty_conv)

lemma sum_list_pos_nonempty:
  fixes xs :: "real list"
  shows "xs \<noteq> [] \<Longrightarrow> \<forall>x \<in> set xs. 0 < x \<Longrightarrow> 0 < sum_list xs"
proof (induction xs)
  case Nil
  then show ?case by simp
next
  case (Cons x xs)
  then show ?case by (cases xs) (auto intro: add_pos_pos)
qed

lemma group_population_pos:
  fixes rs :: "('d, real, 'z) plan_row_scheme list"
  assumes "\<forall>r \<in> set rs. 0 < population r" and "k \<in> set (group_keys key rs)"
  shows "0 < sum_list (map population (group_rows key rs k))"
proof (rule sum_list_pos_nonempty)
  show "map population (group_rows key rs k) \<noteq> []"
    using assms(2) by (simp add: group_rows_nonempty)
  show "\<forall>x \<in> set (map population (group_rows key rs k)). 0 < x"
    using assms(1) by (auto simp: group_rows_def)
qed

lemma sum_list_map2_times:
  "sum_list (map2 (*) (map f g) (map h g)) = sum_list (map (\<lambda>r. f r * h r) g)"
  by (induction g) simp_all

lemma np_average_weighted_mean:
  "sum_list (map population g) \<noteq> 0 \<Longrightarrow>
   np_average (map score_log_linear g) (map population g) = Inr (weighted_mean g)"
  by (simp add: np_average_def weighted_mean_def sum_list_map2_times)

lemma collect_map_Inr:
  "\<forall>k \<in> set ks. f k = Inr (g k) \<Longrightarrow> collect (map f ks) = Inr (map g ks)"
  by (induction ks) simp_all

lemma county_group_Inr:
  assumes "\<forall>r \<in> set rs. 0 < population r"
  shows "county_group rs =
     Inr (map (\<lambda>k. \<lparr> county_stateAbbreviation = fst k, county_countyName = snd k,
                      county_pop = sum_list (map population (group_rows county_key rs k)),
                      county_score_weighted = weighted_mean (group_rows county_key rs k) \<rparr>)
            (group_keys county_key rs))"
  unfolding county_group_def
proof (rule collect_map_Inr, rule ballI)
  fix k assume "k \<in> set (group_keys county_key rs)"
  then have "sum_list (map population (group_rows county_key rs k)) \<noteq> 0"
    using group_population_pos[OF assms] by force
  then show "county_agg rs k =
     Inr \<lparr> county_stateAbbreviation = fst k, county_countyName = snd k,
           county_pop = sum_list (map population (group_rows county_key rs k)),
           county_score_weighted = weighted_mean (group_rows county_key rs k) \<rparr>"
    by (simp add: county_agg_def np_average_weighted_mean Let_def)
qed

lemma state_group_Inr:
  assumes "\<forall>r \<in> set rs. 0 < population r"
  shows "state_group rs =
     Inr (map (\<lambda>k. \<lparr> state_stateAbbreviation = k,
                      state_pop = sum_list (map population (group_rows state_key rs k)),
                      state_score_weighted = weighted_mean (group_rows state_key rs k) \<rparr>)
            (group_keys state_key rs))"
  unfolding state_group_def
proof (rule collect_map_Inr, rule ballI)
  fix k assume "k \<in> set (group_keys state_key rs)"
  then have "sum_list (map population (group_rows state_key rs k)) \<noteq> 0"
    using group_population_pos[OF assms] by force
  then show "state_agg rs k =
     Inr \<lparr> state_stateAbbreviation = k,
           state_pop = sum_list (map population (group_rows state_key rs k)),
           state_score_weighted = weighted_mean (group_rows state_key rs k) \<rparr>"
    by (simp add: state_agg_def np_average_weighted_mean Let_def)
qed

subsection \<open>The snapshot\<close>

lemma scored_population_pos:
  "r \<in> set (score_rows lmin lmax (cleaned_frame srt df)) \<Longrightarrow> 0 < population r"
  using score_rows_population cleaned_frame_pos by metis

lemma initialize_dataset_eq:
  assumes "set required_columns \<subseteq> set (columns df)"
  shows "initialize_dataset srt df =
     (let cleaned = cleaned_frame srt df;
          lps = log_column cleaned;
          scored = score_rows (series_min lps) (series_max lps) cleaned
      in case county_group scored of
           Inl e \<Rightarrow> Inl e
         | Inr cg \<Rightarrow>
             (case state_group scored of
                Inl e \<Rightarrow> Inl e
              | Inr sg \<Rightarrow>
                  Inr \<lparr> latest = scored,
                        town_index = build_town_index scored,
                        county_index = build_county_index cg,
                        state_index = build_state_index sg,
                        log_min = series_min lps, log_max = series_max lps,
                        log_median = series_median lps \<rparr>))"
  using assms
  by (simp add: initialize_dataset_def cleaned_frame_def log_column_def deduplicate_def Let_def)

lemma initialize_dataset_snapshot:
  assumes "set required_columns \<subseteq> set (columns df)"
  shows "\<exists>cg sg.
     county_group (score_rows (series_min (log_column (cleaned_frame srt df)))
        (series_max (log_column (cleaned_frame srt df))) (cleaned_frame srt df)) = Inr cg \<and>
     state_group (score_rows (series_min (log_column (cleaned_frame srt df)))
        (series_max (log_column (cleaned_frame srt df))) (cleaned_frame srt df)) = Inr sg \<and>
     initialize_dataset srt df =
       Inr \<lparr> latest = score_rows (series_min (log_column (cleaned_frame srt df)))
                (series_max (log_column (cleaned_frame srt df))) (cleaned_frame srt df),
             town_index = build_town_index
               (score_rows (series_min (log_column (cleaned_frame srt df)))
                  (series_max (log_column (cleaned_frame srt df))) (cleaned_frame srt df)),
             county_index = build_county_index cg,
             state_index = build_state_index sg,
             log_min = series_min (log_column (cleaned_frame srt df)),
             log_max = series_max (log_column (cleaned_frame srt df)),
             log_median = series_median (log_column (cleaned_frame srt df)) \<rparr>"
proof -
  let ?scored = "score_rows (series_min (log_column (cleaned_frame srt df)))
        (series_max (log_column (cleaned_frame srt df))) (cleaned_frame srt df)"
  have pos: "\<forall>r \<in> set ?scored. 0 < population r"
    using scored_population_pos by blast
  obtain cg where cg: "county_group ?scored = Inr cg"
    using county_group_Inr[OF pos] by blast
  obtain sg where sg: "state_group ?scored = Inr sg"
    using state_group_Inr[OF pos] by blast
  show ?thesis
    using cg sg by (simp add: initialize_dataset_eq[OF assms] Let_def)
qed

lemma small_town_built: "initialize_dataset sort_values small_town_df = Inr small_town_snapshot"
  by (simp add: initialize_dataset_def small_town_df_def small_town_snapshot_def row_victory_def
      sort_values_def drop_duplicates_def series_min_def series_max_def series_median_def
      score_rows_def county_group_def state_group_def group_keys_def build_town_index_def
      build_county_index_def build_state_index_def sort_index_def List.map_filter_def
      convert_dates_def to_datetime_def clean_population_row_def clean_population_def
      to_numeric_def fillna_def log1p_def score_row_def linear_score_def round2_fixed
      rank_pct_def county_agg_def state_agg_def group_rows_def county_key_def state_key_def
      np_average_def str_upper_def str_lower_def upper_def lower_def upper_char_def
      lower_char_def dedup_key_def Let_def)

lemma empty_built:
  assumes "srt [] = []"
  shows "initialize_dataset srt empty_df = Inr empty_snapshot"
  using assms
  by (simp add: initialize_dataset_def empty_df_def empty_snapshot_def drop_duplicates_def
      series_min_def series_max_def series_median_def score_rows_def county_group_def
      state_group_def group_keys_def build_town_index_def build_county_index_def
      build_state_index_def sort_index_def List.map_filter_def)




lemma resolve_empty_snapshot:
  "resolve empty_snapshot s c p =
     (None, ''global_fallback'', Fallback_details ''no match found for town/county/state'')"
  by (simp add: resolve_def empty_snapshot_def get_best_score_with_meta_def town_level_def
      county_level_def state_level_def index_contains_def global_fallback_def
      fallback_score_def float_eq_def)

text \<open>
  C8, as the code has it. For a table with the named columns and no row the
  initialisation does not fail: it returns the snapshot with an empty frame, empty
  indexes and NaN statistics, and on that snapshot every query is answered at the
  level of the global fallback with the score NaN.
\<close>

theorem empty_dataset_initialises:
  assumes "sorts_by_date srt"
    and "set required_columns \<subseteq> set (columns df)" and "rows df = []"
  shows "initialize_dataset srt df = Inr empty_snapshot \<and>
         log_min empty_snapshot = None \<and> log_max empty_snapshot = None \<and>
         log_median empty_snapshot = None \<and>
         resolve empty_snapshot s c p =
           (None, ''global_fallback'',
            Fallback_details ''no match found for town/county/state'')"
proof -
  have "mset (srt []) = mset ([] :: dated_row list)"
    using assms(1) unfolding sorts_by_date_def by blast
  then have e: "srt [] = []" by simp
  have "initialize_dataset srt df = Inr empty_snapshot"
    using assms(2,3) e
    by (simp add: initialize_dataset_def empty_snapshot_def drop_duplicates_def
      series_min_def series_max_def series_median_def score_rows_def county_group_def
      state_group_def group_keys_def build_town_index_def build_county_index_def
      build_state_index_def sort_index_def List.map_filter_def)
  then show ?thesis
    by (simp add: resolve_empty_snapshot) (simp add: empty_snapshot_def)
qed

theorem empty_dataset_initialises_witness:
  "sorts_by_date sort_values \<and> set required_columns \<subseteq> set (columns empty_df) \<and>
   rows empty_df = [] \<and>
   initialize_dataset sort_values empty_df = Inr empty_snapshot \<and>
   resolve empty_snapshot (Some ''CA'') (Some ''Kern'') (Some ''Taft'') =
     (None, ''global_fallback'', Fallback_details ''no match found for town/county/state'')"
proof -
  have c: "set required_columns \<subseteq> set (columns empty_df)" "rows empty_df = []"
    by (simp_all add: empty_df_def)
  show ?thesis
    using empty_dataset_initialises[OF sort_values_sorts c, of "Some ''CA''" "Some ''Kern''"
        "Some ''Taft''"] sort_values_sorts c
    by simp
qed

text \<open>
  The failure that the specification states for C8 does not happen: on the table
  without rows the initialisation returns a snapshot, and its statistics are NaN.
\<close>

theorem empty_dataset_counterexample:
  "rows empty_df = [] \<and> \<not> isl (initialize_dataset sort_values empty_df) \<and>
   initialize_dataset sort_values empty_df = Inr empty_snapshot \<and>
   log_min empty_snapshot = None \<and> log_max empty_snapshot = None \<and>
   log_median empty_snapshot = None"
proof -
  have "initialize_dataset sort_values empty_df = Inr empty_snapshot"
    by (rule empty_built) (simp add: sort_values_def)
  then show ?thesis
    by (simp add: empty_df_def) (simp add: empty_snapshot_def)
qed

section \<open>Properties of the scores and the aggregates\<close>

lemma initialize_dataset_columns:
  "initialize_dataset srt df = Inr snap \<Longrightarrow> set required_columns \<subseteq> set (columns df)"
  by (auto simp: initialize_dataset_def split: if_splits)

lemma snapshot_fields:
  assumes "initialize_dataset srt df = Inr snap"
  shows "latest snap = score_rows (series_min (log_column (cleaned_frame srt df)))
           (series_max (log_column (cleaned_frame srt df))) (cleaned_frame srt df)"
    and "town_index snap = build_town_index (latest snap)"
    and "\<exists>cg. county_group (latest snap) = Inr cg \<and> county_index snap = build_county_index cg"
    and "\<exists>sg. state_group (latest snap) = Inr sg \<and> state_index snap = build_state_index sg"
    and "log_min snap = series_min (log_column (cleaned_frame srt df))"
    and "log_max snap = series_max (log_column (cleaned_frame srt df))"
    and "log_median snap = series_median (log_column (cleaned_frame srt df))"
  using initialize_dataset_snapshot[OF initialize_dataset_columns[OF assms], of srt] assms
  by auto

lemma latest_population_pos:
  "initialize_dataset srt df = Inr snap \<Longrightarrow> r \<in> set (latest snap) \<Longrightarrow> 0 < population r"
  using snapshot_fields(1) scored_population_pos by metis

lemma series_min_Min:
  assumes "xs \<noteq> []"
  shows "series_min xs = Some (Min (set xs))"
proof (cases xs)
  case Nil
  with assms show ?thesis by simp
next
  case (Cons a ys)
  then show ?thesis using Min.set_eq_fold[of a ys] by (simp add: series_min_def)
qed

lemma series_max_Max:
  assumes "xs \<noteq> []"
  shows "series_max xs = Some (Max (set xs))"
proof (cases xs)
  case Nil
  with assms show ?thesis by simp
next
  case (Cons a ys)
  then show ?thesis using Max.set_eq_fold[of a ys] by (simp add: series_max_def)
qed


lemma score_rows_nonempty:
  assumes "rs \<noteq> []"
  shows "score_rows (series_min (log_column rs)) (series_max (log_column rs)) rs =
     map (score_row (Min (set (log_column rs))) (Max (set (log_column rs))) (log_column rs)) rs"
proof -
  have "log_column rs \<noteq> []" using assms by (simp add: log_column_def)
  then show ?thesis
    by (simp add: score_rows_def series_min_Min series_max_Max) (simp add: log_column_def)
qed

lemma score_rows_empty: "score_rows lmin lmax [] = []"
  by (simp add: score_rows_def split: option.splits)

text \<open>
  C4. In the snapshot the county index is built from the county groups of \<open>latest\<close> and
  the state index from its state groups; there is one aggregate for each key that has
  a row, and none else. The population of an aggregate is the sum of the populations
  of its group, and its weighted score is the sum of score times population over the
  sum of the populations. Two records of populations 1000 and 3000 with scores 40 and
  80 have the weighted score 70.
\<close>

theorem aggregates_are_weighted_means:
  assumes "initialize_dataset srt df = Inr snap"
  shows "\<exists>cg sg.
     county_group (latest snap) = Inr cg \<and> county_index snap = build_county_index cg \<and>
     state_group (latest snap) = Inr sg \<and> state_index snap = build_state_index sg \<and>
     distinct (map (\<lambda>c. (county_stateAbbreviation c, county_countyName c)) cg) \<and>
     set (map (\<lambda>c. (county_stateAbbreviation c, county_countyName c)) cg) =
       {k. group_rows county_key (latest snap) k \<noteq> []} \<and>
     distinct (map state_stateAbbreviation sg) \<and>
     set (map state_stateAbbreviation sg) = {k. group_rows state_key (latest snap) k \<noteq> []} \<and>
     (\<forall>c \<in> set cg.
        county_pop c = sum_list (map population
          (group_rows county_key (latest snap)
             (county_stateAbbreviation c, county_countyName c))) \<and>
        county_score_weighted c = weighted_mean
          (group_rows county_key (latest snap)
             (county_stateAbbreviation c, county_countyName c))) \<and>
     (\<forall>s \<in> set sg.
        state_pop s = sum_list (map population
          (group_rows state_key (latest snap) (state_stateAbbreviation s))) \<and>
        state_score_weighted s = weighted_mean
          (group_rows state_key (latest snap) (state_stateAbbreviation s))) \<and>
     (population r1 = 1000 \<and> score_log_linear r1 = 40 \<and>
      population r2 = 3000 \<and> score_log_linear r2 = 80 \<longrightarrow> weighted_mean [r1, r2] = 70)"
proof -
  let ?rs = "latest snap"
  let ?cg = "map (\<lambda>k. \<lparr> county_stateAbbreviation = fst k, county_countyName = snd k,
                      county_pop = sum_list (map population (group_rows county_key ?rs k)),
                      county_score_weighted = weighted_mean (group_rows county_key ?rs k) \<rparr>)
            (group_keys county_key ?rs)"
  let ?sg = "map (\<lambda>k. \<lparr> state_stateAbbreviation = k,
                      state_pop = sum_list (map population (group_rows state_key ?rs k)),
                      state_score_weighted = weighted_mean (group_rows state_key ?rs k) \<rparr>)
            (group_keys state_key ?rs)"
  have pos: "\<forall>r \<in> set ?rs. 0 < population r"
    using latest_population_pos[OF assms] by blast
  have cg: "county_group ?rs = Inr ?cg" by (rule county_group_Inr[OF pos])
  have sg: "state_group ?rs = Inr ?sg" by (rule state_group_Inr[OF pos])
  have ci: "county_index snap = build_county_index ?cg"
    using snapshot_fields(3)[OF assms] cg by auto
  have si: "state_index snap = build_state_index ?sg"
    using snapshot_fields(4)[OF assms] sg by auto
  have ck: "map (\<lambda>c. (county_stateAbbreviation c, county_countyName c)) ?cg
      = group_keys county_key ?rs"
    by (simp add: comp_def)
  have sk: "map state_stateAbbreviation ?sg = group_keys state_key ?rs"
    by (simp add: comp_def)
  have cset: "set (group_keys county_key ?rs) = {k. group_rows county_key ?rs k \<noteq> []}"
    using group_rows_nonempty[of _ county_key ?rs] by blast
  have sset: "set (group_keys state_key ?rs) = {k. group_rows state_key ?rs k \<noteq> []}"
    using group_rows_nonempty[of _ state_key ?rs] by blast
  have cagg: "\<forall>c \<in> set ?cg.
        county_pop c = sum_list (map population
          (group_rows county_key ?rs (county_stateAbbreviation c, county_countyName c))) \<and>
        county_score_weighted c = weighted_mean
          (group_rows county_key ?rs (county_stateAbbreviation c, county_countyName c))"
    by auto
  have sagg: "\<forall>s \<in> set ?sg.
        state_pop s = sum_list (map population
          (group_rows state_key ?rs (state_stateAbbreviation s))) \<and>
        state_score_weighted s = weighted_mean
          (group_rows state_key ?rs (state_stateAbbreviation s))"
    by auto
  have ex: "population r1 = 1000 \<and> score_log_linear r1 = 40 \<and>
      population r2 = 3000 \<and> score_log_linear r2 = 80 \<longrightarrow> weighted_mean [r1, r2] = 70"
    by (simp add: weighted_mean_def)
  show ?thesis
    apply (rule exI[of _ ?cg], rule exI[of _ ?sg])
    apply (intro conjI)
              apply (rule cg)
             apply (rule ci)
            apply (rule sg)
           apply (rule si)
          apply (simp only: ck distinct_group_keys)
         apply (simp only: ck cset)
        apply (simp only: sk distinct_group_keys)
       apply (simp only: sk sset)
      apply (rule cagg)
     apply (rule sagg)
    apply (rule ex)
    done
qed

theorem aggregates_are_weighted_means_witness:
  "initialize_dataset sort_values small_town_df = Inr small_town_snapshot \<and>
   population row_arvin = 1000 \<and> score_log_linear row_arvin = 40 \<and>
   population row_taft = 3000 \<and> score_log_linear row_taft = 80 \<and>
   weighted_mean [row_arvin, row_taft] = 70 \<and>
   county_group [row_arvin, row_taft] =
     Inr [\<lparr> county_stateAbbreviation = ''CA'', county_countyName = ''Kern'',
            county_pop = 4000, county_score_weighted = 70 \<rparr>]"
proof -
  have f: "population row_arvin = 1000" "score_log_linear row_arvin = 40"
    "population row_taft = 3000" "score_log_linear row_taft = 80"
    by (simp_all add: row_arvin_def row_taft_def)
  have w: "weighted_mean [row_arvin, row_taft] = 70"
    using aggregates_are_weighted_means[OF small_town_built, of row_arvin row_taft] f
    by blast
  have "county_group [row_arvin, row_taft] =
     Inr [\<lparr> county_stateAbbreviation = ''CA'', county_countyName = ''Kern'',
            county_pop = 4000, county_score_weighted = 70 \<rparr>]"
    by (simp add: county_group_def group_keys_def county_key_def row_arvin_def row_taft_def
        List.map_filter_def county_agg_def group_rows_def np_average_def)
  then show ?thesis using f w small_town_built by simp
qed

lemma linear_score_degenerate: "linear_score v v lp = 50"
  by (simp add: linear_score_def round2_fixed)

lemma scored_of_cleaned:
  assumes "initialize_dataset srt df = Inr snap" and "cleaned_frame srt df \<noteq> []"
  shows "latest snap =
     map (score_row (Min (set (log_column (cleaned_frame srt df))))
            (Max (set (log_column (cleaned_frame srt df))))
            (log_column (cleaned_frame srt df)))
       (cleaned_frame srt df)"
  using snapshot_fields(1)[OF assms(1)] score_rows_nonempty[OF assms(2)] by simp

lemma latest_empty:
  assumes "initialize_dataset srt df = Inr snap" and "cleaned_frame srt df = []"
  shows "latest snap = []"
  using snapshot_fields(1)[OF assms(1)] assms(2) by (simp add: score_rows_empty)

text \<open>
  C6. When all records of the deduplicated and cleaned frame have the same population,
  the minimum and the maximum of the logarithms coincide and every record has the
  score 50.
\<close>

theorem equal_populations_score_50:
  assumes "initialize_dataset srt df = Inr snap"
    and "\<forall>r \<in> set (latest snap). population r = p"
  shows "(\<forall>r \<in> set (latest snap). score_log_linear r = 50) \<and>
         (latest snap \<noteq> [] \<longrightarrow>
            log_min snap = Some (log1p p) \<and> log_max snap = Some (log1p p))"
proof (cases "cleaned_frame srt df = []")
  case True
  then show ?thesis using latest_empty[OF assms(1)] by simp
next
  case False
  let ?cl = "cleaned_frame srt df"
  let ?lps = "log_column ?cl"
  have lat: "latest snap = map (score_row (Min (set ?lps)) (Max (set ?lps)) ?lps) ?cl"
    by (rule scored_of_cleaned[OF assms(1) False])
  have pop: "population r0 = p" if "r0 \<in> set ?cl" for r0
  proof -
    have "score_row (Min (set ?lps)) (Max (set ?lps)) ?lps r0 \<in> set (latest snap)"
      using that by (simp add: lat)
    then have "population (score_row (Min (set ?lps)) (Max (set ?lps)) ?lps r0) = p"
      using assms(2) by blast
    then show ?thesis by (simp add: score_row_fields)
  qed
  have "set ?lps = (\<lambda>r. log1p (population r)) ` set ?cl"
    by (simp add: log_column_def)
  also have "\<dots> = (\<lambda>r. log1p p) ` set ?cl"
    using pop by (intro image_cong) simp_all
  also have "\<dots> = {log1p p}"
    using False by (simp add: image_constant_conv)
  finally have "set ?lps = {log1p p}" .
  then have mm: "Min (set ?lps) = log1p p" "Max (set ?lps) = log1p p"
    by simp_all
  have ne: "?lps \<noteq> []" using False by (simp add: log_column_def)
  have "\<forall>r \<in> set (latest snap). score_log_linear r = 50"
    by (auto simp: lat mm score_row_fields linear_score_degenerate)
  moreover have "log_min snap = Some (log1p p)"
    using snapshot_fields(5)[OF assms(1)] series_min_Min[OF ne] mm by simp
  moreover have "log_max snap = Some (log1p p)"
    using snapshot_fields(6)[OF assms(1)] series_max_Max[OF ne] mm by simp
  ultimately show ?thesis by simp
qed

lemma twin_cleaned:
  "cleaned_frame sort_values twin_df =
     [\<lparr> stateAbbreviation = Some ''VT'', countyName = Some ''Essex'',
         placeName = Some ''Victory'', population = 1000, planApprovalDate = Some 3 \<rparr>,
      \<lparr> stateAbbreviation = Some ''VT'', countyName = Some ''Essex'',
         placeName = Some ''Granby'', population = 1000, planApprovalDate = None \<rparr>]"
  by (simp add: cleaned_frame_def twin_df_def deduplicate_def sort_values_def
      drop_duplicates_def dedup_key_def convert_dates_def to_datetime_def
      clean_population_row_def clean_population_def to_numeric_def fillna_def)

theorem equal_populations_score_50_witness:
  "\<exists>snap. initialize_dataset sort_values twin_df = Inr snap \<and>
     map population (latest snap) = [1000, 1000] \<and>
     map score_log_linear (latest snap) = [50, 50]"
proof -
  have cols: "set required_columns \<subseteq> set (columns twin_df)"
    by (simp add: twin_df_def)
  obtain snap where snap: "initialize_dataset sort_values twin_df = Inr snap"
    using initialize_dataset_snapshot[OF cols, of sort_values] by blast
  have ne: "cleaned_frame sort_values twin_df \<noteq> []"
    by (simp add: twin_cleaned)
  have pops: "map population (latest snap) = [1000, 1000]"
    by (simp add: scored_of_cleaned[OF snap ne] score_row_fields comp_def)
      (simp add: twin_cleaned)
  then have len: "length (latest snap) = 2"
    by (metis length_map length_Cons list.size(3) numeral_2_eq_2)
  have "\<forall>r \<in> set (latest snap). population r = 1000"
  proof
    fix r assume "r \<in> set (latest snap)"
    then have "population r \<in> set (map population (latest snap))" by simp
    then show "population r = 1000" by (simp add: pops)
  qed
  then have "\<forall>r \<in> set (latest snap). score_log_linear r = 50"
    using equal_populations_score_50[OF snap, of 1000] by blast
  then have "map score_log_linear (latest snap) = replicate (length (latest snap)) 50"
    by (simp add: map_replicate_const[symmetric] cong: map_cong)
  then have "map score_log_linear (latest snap) = [50, 50]"
    by (simp add: len numeral_2_eq_2)
  with snap pops show ?thesis by (intro exI[of _ snap]) simp
qed







section \<open>The range of the scores\<close>






















end
